theory Spec2Isabelle
  imports Main "HOL-Library.AList"
begin

section \<open>Python strings\<close>

text \<open>
  Python \<open>str\<close> values are modelled as \<open>string\<close>; the characters are ASCII.
  \<open>str.strip()\<close> without argument removes leading and trailing whitespace, which for
  ASCII text is the characters 0x09-0x0D, 0x1C-0x1F and the space.
\<close>

definition is_space :: "char \<Rightarrow> bool" where
  "is_space c \<longleftrightarrow>
     c \<in> set [CHR 0x09, CHR 0x0A, CHR 0x0B, CHR 0x0C, CHR 0x0D,
              CHR 0x1C, CHR 0x1D, CHR 0x1E, CHR 0x1F, CHR 0x20]"

definition str_strip :: "string \<Rightarrow> string" where
  "str_strip s = rev (dropWhile is_space (rev (dropWhile is_space s)))"

text \<open>\<open>s.split(sep)\<close> for a one-character separator: never returns the empty list.\<close>

fun str_split :: "char \<Rightarrow> string \<Rightarrow> string list" where
  "str_split sep [] = [[]]"
| "str_split sep (c # cs) =
     (if c = sep then [] # str_split sep cs
      else (case str_split sep cs of
              [] \<Rightarrow> [[c]]
            | w # ws \<Rightarrow> (c # w) # ws))"

text \<open>\<open>sep.join(comps)\<close>.\<close>

fun str_join :: "string \<Rightarrow> string list \<Rightarrow> string" where
  "str_join sep [] = []"
| "str_join sep [w] = w"
| "str_join sep (w # ws) = w @ sep @ str_join sep ws"

text \<open>\<open>s.startswith(t)\<close> and \<open>s.endswith(t)\<close>.\<close>

definition startswith :: "string \<Rightarrow> string \<Rightarrow> bool" where
  "startswith s t \<longleftrightarrow> take (length t) s = t"

definition endswith :: "string \<Rightarrow> string \<Rightarrow> bool" where
  "endswith s t \<longleftrightarrow> startswith (rev s) (rev t)"

section \<open>The functions of \<open>os.path\<close> that \<open>Setting.__path__\<close> calls (POSIX)\<close>

text \<open>
  The standard library's \<open>posixpath\<close>, with the separator \<open>/\<close>. None of them touches
  the file system; \<open>abspath\<close> reads the working directory, which is the parameter
  \<open>cwd\<close> (the value of \<open>os.getcwd()\<close>).
\<close>

definition os_path_isabs :: "string \<Rightarrow> bool" where
  "os_path_isabs s \<longleftrightarrow> startswith s ''/''"

text \<open>\<open>join(a, b)\<close> with one further component.\<close>

definition os_path_join :: "string \<Rightarrow> string \<Rightarrow> string" where
  "os_path_join a b =
     (if startswith b ''/'' then b
      else if a = [] \<or> endswith a ''/'' then a @ b
      else a @ ''/'' @ b)"

text \<open>
  \<open>dirname(p)\<close>: \<open>head = p[:p.rfind('/') + 1]\<close>, and the trailing slashes of the head are
  removed unless the head consists of slashes only.
\<close>

definition os_path_dirname :: "string \<Rightarrow> string" where
  "os_path_dirname p =
     (let head = rev (dropWhile (\<lambda>c. c \<noteq> CHR ''/'') (rev p))
      in if head \<noteq> [] \<and> head \<noteq> replicate (length head) CHR ''/''
         then rev (dropWhile (\<lambda>c. c = CHR ''/'') (rev head))
         else head)"

text \<open>One round of the loop of \<open>normpath\<close> over the components.\<close>

definition normpath_step :: "nat \<Rightarrow> string list \<Rightarrow> string \<Rightarrow> string list" where
  "normpath_step initial_slashes new_comps part =
     (if part = [] \<or> part = ''.'' then new_comps
      else if part \<noteq> ''..'' \<or> (initial_slashes = 0 \<and> new_comps = [])
              \<or> (new_comps \<noteq> [] \<and> last new_comps = ''..'')
      then new_comps @ [part]
      else if new_comps \<noteq> [] then butlast new_comps
      else new_comps)"

definition os_path_normpath :: "string \<Rightarrow> string" where
  "os_path_normpath path =
     (if path = [] then ''.''
      else
        let initial_slashes =
              (if startswith path ''/''
               then (if startswith path ''//'' \<and> \<not> startswith path ''///''
                     then 2 else 1)
               else (0::nat));
            comps = foldl (normpath_step initial_slashes) [] (str_split CHR ''/'' path);
            joined = replicate initial_slashes CHR ''/'' @ str_join ''/'' comps
        in if joined = [] then ''.'' else joined)"

definition os_path_abspath :: "string \<Rightarrow> string \<Rightarrow> string" where
  "os_path_abspath cwd path =
     os_path_normpath (if \<not> os_path_isabs path then os_path_join cwd path else path)"

section \<open>Exceptions\<close>

text \<open>
  The source raises \<open>ValueError\<close> and \<open>TypeError\<close> with fixed messages. Each raise of
  the source is one of the values below; a function that can raise returns
  \<open>error + 'a\<close>, with \<open>Inl\<close> for the exception.
\<close>

datatype error = ValueError string | TypeError string

text \<open>\<open>Setting.key\<close> (setter): the key's string form is empty.\<close>

definition empty_key_error :: error where
  "empty_key_error = ValueError ''An empty key is not allowed for a setting.''"

text \<open>\<open>Setting.__iter__\<close> on a setting with \<open>to_append\<close>.\<close>

definition incomplete_iteration_error :: error where
  "incomplete_iteration_error =
     ValueError (''Iteration on this object is invalid because the '' @
                 ''value is incomplete. Please access the value of '' @
                 ''the setting in a section to iterate through it.'')"

text \<open>\<open>Setting.value\<close> (getter) on a setting with \<open>to_append\<close>.\<close>

definition incomplete_value_error :: error where
  "incomplete_value_error =
     ValueError (''This property is invalid because the value is '' @
                 ''incomplete. Please access the value of the '' @
                 ''setting in a section to get the complete value.'')"

text \<open>\<open>Setting.__path__\<close> without any origin.\<close>

definition missing_origin_error :: error where
  "missing_origin_error = ValueError ''Cannot determine path without origin.''"

text \<open>\<open>Setting.line_number\<close> and \<open>Setting.end_line_number\<close> on a \<open>str\<close> origin.\<close>

definition no_line_numbers_error :: error where
  "no_line_numbers_error =
     TypeError (''Instantiated with str '' @ [CHR 0x27] @ ''origin'' @ [CHR 0x27] @ '' '' @
                ''which does not have line numbers. '' @
                ''Use SourcePosition for line numbers.'')"

text \<open>
  A list comprehension \<open>[f(x) for x in xs]\<close> whose body can raise: the first exception
  ends it.
\<close>

fun collect :: "('a \<Rightarrow> error + 'b) \<Rightarrow> 'a list \<Rightarrow> error + 'b list" where
  "collect f [] = Inr []"
| "collect f (x # xs) =
     (case f x of
        Inl e \<Rightarrow> Inl e
      | Inr y \<Rightarrow> (case collect f xs of
                   Inl e \<Rightarrow> Inl e
                 | Inr ys \<Rightarrow> Inr (y # ys)))"

section \<open>The collaborators of \<open>Setting\<close>\<close>

subsection \<open>\<open>StringConverter\<close>\<close>

text \<open>
  Modelled from the spec: the class \<open>StringConverter\<close> of \<open>coala_utils\<close>, the base class
  of \<open>Setting\<close> (the spec's TextValue primitive), which is not part of the source. It
  holds the raw text and the formatting options (whitespace stripping, list delimiters,
  removal of empty elements), and exposes its string form and the iteration over the
  trimmed elements split on any of the delimiters. The delimiters are single
  characters, as the default \<open>(',', ';')\<close>.
\<close>

record StringConverter =
  value_attr :: string
  strip_whitespaces :: bool
  list_delimiters :: "char list"
  remove_empty_iter_elements :: bool

text \<open>
  Modelled from the spec: \<open>StringConverter.__init__\<close>, which stores the text, trimmed
  when whitespace stripping is on.
\<close>

definition StringConverter_init ::
  "string \<Rightarrow> bool \<Rightarrow> char list \<Rightarrow> bool \<Rightarrow> StringConverter" where
  "StringConverter_init val strip delimiters remove_empty =
     \<lparr>value_attr = (if strip then str_strip val else val),
      strip_whitespaces = strip,
      list_delimiters = delimiters,
      remove_empty_iter_elements = remove_empty\<rparr>"

text \<open>\<open>StringConverter(elem)\<close>, every option at its default.\<close>

definition StringConverter_of :: "string \<Rightarrow> StringConverter" where
  "StringConverter_of elem = StringConverter_init elem True '',;'' True"

text \<open>
  Modelled from the spec: \<open>StringConverter.__str__\<close>, the string form, on an object of
  the base class itself, whose property \<open>value\<close> returns the stored text.
\<close>

definition StringConverter_str :: "StringConverter \<Rightarrow> string" where
  "StringConverter_str self = value_attr self"

text \<open>The text cut at every character that is one of the delimiters.\<close>

fun split_any :: "char list \<Rightarrow> string \<Rightarrow> string list" where
  "split_any delimiters [] = [[]]"
| "split_any delimiters (c # cs) =
     (if c \<in> set delimiters then [] # split_any delimiters cs
      else (case split_any delimiters cs of
              [] \<Rightarrow> [[c]]
            | w # ws \<Rightarrow> (c # w) # ws))"

text \<open>
  Modelled from the spec: \<open>StringConverter.__iter__\<close>, which splits the text on the
  delimiters, trims each element when whitespace stripping is on, and drops the empty
  elements when that is configured.
\<close>

definition StringConverter_iter :: "'a StringConverter_scheme \<Rightarrow> string list" where
  "StringConverter_iter self =
     (let elems = split_any (list_delimiters self) (value_attr self);
          elems = (if strip_whitespaces self then map str_strip elems else elems)
      in if remove_empty_iter_elements self then filter (\<lambda>elem. elem \<noteq> []) elems
         else elems)"

subsection \<open>\<open>SourcePosition\<close>\<close>

text \<open>
  Modelled from the spec: the class \<open>SourcePosition\<close> of \<open>coalib.results\<close>, which is not
  part of the source: a file name that additionally carries a line number.
\<close>

record SourcePosition =
  filename :: string
  line :: int

text \<open>The argument \<open>origin: (str, SourcePosition)\<close> of \<open>Setting.__init__\<close>.\<close>

datatype origin_value = Str string | Pos SourcePosition

section \<open>\<open>Setting\<close>\<close>

text \<open>
  \<open>class Setting(StringConverter)\<close>: the attributes \<open>to_append\<close>, \<open>from_cli\<close>, \<open>_key\<close>,
  \<open>_origin\<close> and \<open>length\<close> beside those of the base class.
\<close>

record Setting = StringConverter +
  to_append :: bool
  from_cli :: bool
  key_attr :: string
  origin_attr :: origin_value
  length_attr :: int

text \<open>
  The setter of the property \<open>key\<close>. The key is any object; \<open>py_str\<close> is \<open>str\<close> on it.
\<close>

definition Setting_key_setter ::
  "('k \<Rightarrow> string) \<Rightarrow> Setting \<Rightarrow> 'k \<Rightarrow> error + Setting" where
  "Setting_key_setter py_str self k =
     (let newkey = py_str k
      in if newkey = [] then Inl empty_key_error
         else Inr (self\<lparr>key_attr := newkey\<rparr>))"

text \<open>The getter of the property \<open>key\<close>.\<close>

definition Setting_key :: "Setting \<Rightarrow> string" where
  "Setting_key self = key_attr self"

text \<open>
  \<open>Setting.__init__\<close>. The attribute \<open>_key\<close> does not exist before the setter has
  stored it; when the setter raises, no object is returned, so that the assignments
  of \<open>_origin\<close> and \<open>length\<close> that follow it in the source are made here in the same
  record.
\<close>

definition Setting_init ::
  "('k \<Rightarrow> string) \<Rightarrow> 'k \<Rightarrow> string \<Rightarrow> origin_value \<Rightarrow> bool \<Rightarrow> char list \<Rightarrow> bool \<Rightarrow> bool \<Rightarrow> bool
     \<Rightarrow> error + Setting" where
  "Setting_init py_str k val origin strip delimiters cli remove_empty pending =
     Setting_key_setter py_str
       (StringConverter.extend
          (StringConverter_init val strip delimiters remove_empty)
          (Setting.fields pending cli [] origin 1))
       k"

text \<open>The getter of the property \<open>value\<close>, which overrides the base class's.\<close>

definition Setting_value :: "Setting \<Rightarrow> error + string" where
  "Setting_value self =
     (if to_append self then Inl incomplete_value_error
      else Inr (value_attr self))"

text \<open>
  \<open>Setting.__iter__\<close>, with \<open>remove_backslashes\<close> at its default.
\<close>

definition Setting_iter :: "Setting \<Rightarrow> error + string list" where
  "Setting_iter self =
     (if to_append self then Inl incomplete_iteration_error
      else Inr (StringConverter_iter self))"

text \<open>The property \<open>origin\<close>: the file name.\<close>

definition Setting_origin :: "Setting \<Rightarrow> string" where
  "Setting_origin self =
     (case origin_attr self of
        Pos p \<Rightarrow> filename p
      | Str s \<Rightarrow> s)"

definition Setting_line_number :: "Setting \<Rightarrow> error + int" where
  "Setting_line_number self =
     (case origin_attr self of
        Pos p \<Rightarrow> Inr (line p)
      | Str s \<Rightarrow> Inl no_line_numbers_error)"

definition Setting_end_line_number :: "Setting \<Rightarrow> error + int" where
  "Setting_end_line_number self =
     (case origin_attr self of
        Pos p \<Rightarrow> Inr (length_attr self + line p - 1)
      | Str s \<Rightarrow> Inl no_line_numbers_error)"

subsection \<open>Paths\<close>

text \<open>
  \<open>Setting.__path__\<close> is called on a \<open>Setting\<close> and, by \<open>__path_list__\<close> and
  \<open>__glob_list__\<close>, on the plain strings of the iteration.
\<close>

datatype path_subject = SettingObj Setting | StrObj string

text \<open>
  Modelled from the spec: \<open>str(self)\<close>. The string form of a \<open>Setting\<close> is that of
  the base class, which reads the property \<open>value\<close>, and so the getter that
  \<open>Setting\<close> overrides: on an append-pending setting it raises. A plain string is
  its own string form and never raises.
\<close>

definition subject_str :: "path_subject \<Rightarrow> error + string" where
  "subject_str self =
     (case self of
        SettingObj s \<Rightarrow> Setting_value s
      | StrObj t \<Rightarrow> Inr t)"

text \<open>\<open>self.origin\<close> where \<open>hasattr(self, 'origin')\<close>: a plain string has none.\<close>

definition subject_origin :: "path_subject \<Rightarrow> string option" where
  "subject_origin self =
     (case self of
        SettingObj s \<Rightarrow> Some (Setting_origin s)
      | StrObj t \<Rightarrow> None)"

text \<open>
  \<open>Setting.__path__(self, origin=None, glob_escape_origin=False)\<close>. Its first
  statement takes \<open>str(self)\<close>, so that what this raises is raised before anything
  else is looked at. The function \<open>glob_escape\<close> of \<open>coalib.parsing.Globbing\<close> is
  not part of the source and is a parameter; \<open>cwd\<close> is the working directory that
  \<open>os.path.abspath\<close> reads.
\<close>

definition Setting_path ::
  "string \<Rightarrow> (string \<Rightarrow> string) \<Rightarrow> path_subject \<Rightarrow> string option \<Rightarrow> bool \<Rightarrow> error + string" where
  "Setting_path cwd glob_escape self origin glob_escape_origin =
     (case subject_str self of
        Inl e \<Rightarrow> Inl e
      | Inr raw \<Rightarrow>
          let strrep = str_strip raw
          in if os_path_isabs strrep then Inr strrep
             else
               let origin = (case subject_origin self of
                               Some own \<Rightarrow> if own \<noteq> [] then Some own else origin
                             | None \<Rightarrow> origin)
               in case origin of
                    None \<Rightarrow> Inl missing_origin_error
                  | Some file \<Rightarrow>
                      let dir = os_path_abspath cwd (os_path_dirname file);
                          dir = (if glob_escape_origin then glob_escape dir else dir)
                      in Inr (os_path_normpath (os_path_join dir strrep)))"

text \<open>\<open>Setting.__glob__(self, origin=None)\<close>.\<close>

definition Setting_glob ::
  "string \<Rightarrow> (string \<Rightarrow> string) \<Rightarrow> path_subject \<Rightarrow> string option \<Rightarrow> error + string" where
  "Setting_glob cwd glob_escape self origin =
     Setting_path cwd glob_escape self origin True"

text \<open>\<open>Setting.__path_list__\<close> and \<open>Setting.__glob_list__\<close>.\<close>

definition Setting_path_list ::
  "string \<Rightarrow> (string \<Rightarrow> string) \<Rightarrow> Setting \<Rightarrow> error + string list" where
  "Setting_path_list cwd glob_escape self =
     (case Setting_iter self of
        Inl e \<Rightarrow> Inl e
      | Inr elems \<Rightarrow>
          collect (\<lambda>elem. Setting_path cwd glob_escape (StrObj elem)
                            (Some (Setting_origin self)) False)
                  elems)"

definition Setting_glob_list ::
  "string \<Rightarrow> (string \<Rightarrow> string) \<Rightarrow> Setting \<Rightarrow> error + string list" where
  "Setting_glob_list cwd glob_escape self =
     (case Setting_iter self of
        Inl e \<Rightarrow> Inl e
      | Inr elems \<Rightarrow>
          collect (\<lambda>elem. Setting_glob cwd glob_escape (StrObj elem)
                            (Some (Setting_origin self)))
                  elems)"

subsection \<open>Typed converters\<close>

text \<open>
  \<open>typed_list(conversion_func)\<close>, applied to a setting. The conversion function receives
  \<open>StringConverter(elem)\<close> and may raise.
\<close>

definition typed_list ::
  "(StringConverter \<Rightarrow> error + 'a) \<Rightarrow> Setting \<Rightarrow> error + 'a list" where
  "typed_list conversion_func setting =
     (case Setting_iter setting of
        Inl e \<Rightarrow> Inl e
      | Inr elems \<Rightarrow> collect (\<lambda>elem. conversion_func (StringConverter_of elem)) elems)"





subsection \<open>The converters and the escape of the spec's examples\<close>


text \<open>
  Modelled from the spec: the converter \<open>int\<close> of the examples, on the string form of
  the \<open>StringConverter\<close>: an optional sign and decimal digits, surrounding whitespace
  ignored; any other text raises \<open>ValueError\<close>.
\<close>

definition digit_value :: "char \<Rightarrow> nat option" where
  "digit_value c =
     (let n = (of_char c :: nat)
      in if 48 \<le> n \<and> n \<le> 57 then Some (n - 48) else None)"

fun digits_value :: "nat \<Rightarrow> string \<Rightarrow> nat option" where
  "digits_value acc [] = Some acc"
| "digits_value acc (c # cs) =
     (case digit_value c of
        None \<Rightarrow> None
      | Some d \<Rightarrow> digits_value (10 * acc + d) cs)"

definition invalid_literal_error :: error where
  "invalid_literal_error = ValueError ''invalid literal for int() with base 10''"

definition py_int_of :: "StringConverter \<Rightarrow> error + int" where
  "py_int_of sc =
     (let text = str_strip (StringConverter_str sc);
          negative = (text \<noteq> [] \<and> hd text = CHR ''-'');
          digits = (if text \<noteq> [] \<and> (hd text = CHR ''-'' \<or> hd text = CHR ''+'')
                    then tl text else text)
      in if digits = [] then Inl invalid_literal_error
         else (case digits_value 0 digits of
                 None \<Rightarrow> Inl invalid_literal_error
               | Some n \<Rightarrow> Inr (if negative then - int n else int n)))"

text \<open>
  Modelled from the spec: the glob-escape primitive \<open>glob_escape\<close> of
  \<open>coalib.parsing.Globbing\<close>, in the dialect of the spec's example: a backslash before
  each of the metacharacters \<open>*\<close>, \<open>?\<close>, \<open>[\<close> and \<open>]\<close>.
\<close>

definition spec_glob_escape :: "string \<Rightarrow> string" where
  "spec_glob_escape s =
     concat (map (\<lambda>c. if c \<in> set ''*?[]'' then [CHR 0x5C, c] else [c]) s)"

section \<open>Properties\<close>

subsection \<open>Construction\<close>

lemma Setting_init_Inr:
  "py_str k \<noteq> [] \<Longrightarrow>
   Setting_init py_str k val origin strip delimiters cli remove_empty pending =
     Inr \<lparr>value_attr = (if strip then str_strip val else val),
          strip_whitespaces = strip,
          list_delimiters = delimiters,
          remove_empty_iter_elements = remove_empty,
          to_append = pending, from_cli = cli, key_attr = py_str k,
          origin_attr = origin, length_attr = 1\<rparr>"
  by (simp add: Setting_init_def Setting_key_setter_def StringConverter_init_def
        StringConverter.defs Setting.defs)

lemma Setting_init_Inl:
  "py_str k = [] \<Longrightarrow>
   Setting_init py_str k val origin strip delimiters cli remove_empty pending =
     Inl empty_key_error"
  by (simp add: Setting_init_def Setting_key_setter_def)

subsection \<open>Line numbers\<close>

text \<open>
  Claim C8. The line number and the end line number of a setting are available
  exactly when its origin is a \<open>SourcePosition\<close>; with any other origin both raise the
  \<open>TypeError\<close> about missing line numbers. When they are available, the line number
  is the position's line and the end line number is \<open>length + line - 1\<close>.
\<close>

theorem line_numbers_need_source_position:
  "((\<exists>n. Setting_line_number s = Inr n) \<longleftrightarrow> (\<exists>p. origin_attr s = Pos p)) \<and>
   ((\<exists>n. Setting_end_line_number s = Inr n) \<longleftrightarrow> (\<exists>p. origin_attr s = Pos p)) \<and>
   ((\<forall>p. origin_attr s \<noteq> Pos p) \<longrightarrow>
      Setting_line_number s = Inl no_line_numbers_error \<and>
      Setting_end_line_number s = Inl no_line_numbers_error) \<and>
   (\<forall>p. origin_attr s = Pos p \<longrightarrow>
      Setting_line_number s = Inr (line p) \<and>
      Setting_end_line_number s = Inr (length_attr s + line p - 1))"
  by (cases "origin_attr s")
     (simp_all add: Setting_line_number_def Setting_end_line_number_def)

text \<open>
  A setting of length 3 at line 10 ends at line 12; with a plain file name as origin the
  line number is refused.
\<close>

theorem line_numbers_need_source_position_witness:
  "Setting_end_line_number
     \<lparr>value_attr = ''v'', strip_whitespaces = True, list_delimiters = '',;'',
      remove_empty_iter_elements = True, to_append = False, from_cli = False,
      key_attr = ''k'', origin_attr = Pos \<lparr>filename = ''/a/f.cfg'', line = 10\<rparr>,
      length_attr = 3\<rparr> = Inr 12 \<and>
   Setting_line_number
     \<lparr>value_attr = ''v'', strip_whitespaces = True, list_delimiters = '',;'',
      remove_empty_iter_elements = True, to_append = False, from_cli = False,
      key_attr = ''k'', origin_attr = Str ''/a/f.cfg'',
      length_attr = 3\<rparr> = Inl no_line_numbers_error"
  using line_numbers_need_source_position
          [of "\<lparr>value_attr = ''v'', strip_whitespaces = True, list_delimiters = '',;'',
                remove_empty_iter_elements = True, to_append = False, from_cli = False,
                key_attr = ''k'',
                origin_attr = Pos \<lparr>filename = ''/a/f.cfg'', line = 10\<rparr>,
                length_attr = 3\<rparr>"]
        line_numbers_need_source_position
          [of "\<lparr>value_attr = ''v'', strip_whitespaces = True, list_delimiters = '',;'',
                remove_empty_iter_elements = True, to_append = False, from_cli = False,
                key_attr = ''k'', origin_attr = Str ''/a/f.cfg'',
                length_attr = 3\<rparr>"]
  by simp

subsection \<open>The key\<close>

text \<open>
  Claim C9. When the string form of the key is not empty, constructing a setting
  succeeds and its key is that string form, and assigning the key stores it and
  changes nothing else. When the string form is empty, both raise the \<open>ValueError\<close>
  about the empty key. So the key of a constructed setting is never empty.
\<close>

theorem key_never_empty:
  "(py_str k \<noteq> [] \<longrightarrow>
      (\<exists>s. Setting_init py_str k val origin strip delimiters cli remove_empty pending = Inr s
           \<and> Setting_key s = py_str k) \<and>
      Setting_key_setter py_str self k = Inr (self\<lparr>key_attr := py_str k\<rparr>) \<and>
      Setting_key (self\<lparr>key_attr := py_str k\<rparr>) = py_str k) \<and>
   (py_str k = [] \<longrightarrow>
      Setting_init py_str k val origin strip delimiters cli remove_empty pending
        = Inl empty_key_error \<and>
      Setting_key_setter py_str self k = Inl empty_key_error) \<and>
   (\<forall>s. Setting_init py_str k val origin strip delimiters cli remove_empty pending = Inr s
        \<longrightarrow> Setting_key s \<noteq> [])"
proof (cases "py_str k = []")
  case True
  then show ?thesis
    by (simp add: Setting_init_Inl Setting_key_setter_def)
next
  case False
  then show ?thesis
    by (simp add: Setting_init_Inr Setting_key_setter_def Setting_key_def)
qed

theorem key_never_empty_witness:
  "(\<exists>s. Setting_init id ''name'' ''v'' (Str []) True '',;'' False True False = Inr s
        \<and> Setting_key s = ''name'') \<and>
   Setting_init id [] ''v'' (Str []) True '',;'' False True False = Inl empty_key_error"
  using key_never_empty [of id "''name''" "''v''" "Str []" True "'',;''" False True False]
        key_never_empty [of id "[]" "''v''" "Str []" True "'',;''" False True False]
  by simp

subsection \<open>Append-pending settings\<close>

text \<open>
  Claim C2. On a setting with \<open>to_append\<close>, as a setting constructed with
  \<open>to_append=True\<close> is, reading the value and iterating both raise the \<open>ValueError\<close>
  about the incomplete value. On the same setting with the flag cleared both succeed:
  the value is the stored text and the iteration is that of the base class.
\<close>

theorem append_pending_is_incomplete:
  "(to_append s \<longrightarrow>
      Setting_value s = Inl incomplete_value_error \<and>
      Setting_iter s = Inl incomplete_iteration_error \<and>
      Setting_value (s\<lparr>to_append := False\<rparr>) = Inr (value_attr s) \<and>
      Setting_iter (s\<lparr>to_append := False\<rparr>) = Inr (StringConverter_iter s)) \<and>
   (\<forall>c. Setting_init py_str k val origin strip delimiters cli remove_empty True = Inr c
        \<longrightarrow> to_append c)"
proof (cases "py_str k = []")
  case True
  then show ?thesis
    by (simp add: Setting_init_Inl Setting_value_def Setting_iter_def
          StringConverter_iter_def)
next
  case False
  then show ?thesis
    by (auto simp add: Setting_init_Inr Setting_value_def Setting_iter_def
          StringConverter_iter_def)
qed

theorem append_pending_is_incomplete_witness:
  "Setting_value
     \<lparr>value_attr = ''a, b'', strip_whitespaces = True, list_delimiters = '',;'',
      remove_empty_iter_elements = True, to_append = True, from_cli = False,
      key_attr = ''k'', origin_attr = Str [], length_attr = 1\<rparr>
     = Inl incomplete_value_error \<and>
   Setting_iter
     \<lparr>value_attr = ''a, b'', strip_whitespaces = True, list_delimiters = '',;'',
      remove_empty_iter_elements = True, to_append = True, from_cli = False,
      key_attr = ''k'', origin_attr = Str [], length_attr = 1\<rparr>
     = Inl incomplete_iteration_error \<and>
   Setting_value
     \<lparr>value_attr = ''a, b'', strip_whitespaces = True, list_delimiters = '',;'',
      remove_empty_iter_elements = True, to_append = False, from_cli = False,
      key_attr = ''k'', origin_attr = Str [], length_attr = 1\<rparr>
     = Inr ''a, b'' \<and>
   Setting_iter
     \<lparr>value_attr = ''a, b'', strip_whitespaces = True, list_delimiters = '',;'',
      remove_empty_iter_elements = True, to_append = False, from_cli = False,
      key_attr = ''k'', origin_attr = Str [], length_attr = 1\<rparr>
     = Inr [''a'', ''b'']"
  using append_pending_is_incomplete
          [of "\<lparr>value_attr = ''a, b'', strip_whitespaces = True, list_delimiters = '',;'',
                remove_empty_iter_elements = True, to_append = True, from_cli = False,
                key_attr = ''k'', origin_attr = Str [], length_attr = 1\<rparr>"
              id "''k''" "''a, b''" "Str []" True "'',;''" False True]
  by (simp add: StringConverter_iter_def str_strip_def is_space_def)

subsection \<open>Paths\<close>

lemma collect_all_Inr:
  "(\<And>x. x \<in> set xs \<Longrightarrow> f x = Inr (g x)) \<Longrightarrow> collect f xs = Inr (map g xs)"
  by (induction xs) simp_all

lemma subject_str_Inr_iff:
  "subject_str self = Inr raw \<longleftrightarrow>
     self = StrObj raw \<or> (\<exists>s. self = SettingObj s \<and> \<not> to_append s \<and> value_attr s = raw)"
  by (cases self) (auto simp add: subject_str_def Setting_value_def)

lemma Setting_path_pending:
  "to_append s \<Longrightarrow>
   Setting_path cwd glob_escape (SettingObj s) origin glob_escape_origin
     = Inl incomplete_value_error"
  by (simp add: Setting_path_def subject_str_def Setting_value_def)

lemma Setting_path_StrObj:
  "Setting_path cwd glob_escape (StrObj elem) (Some file) glob_escape_origin
     = Inr (if os_path_isabs (str_strip elem) then str_strip elem
            else os_path_normpath
              (os_path_join
                 (if glob_escape_origin
                  then glob_escape (os_path_abspath cwd (os_path_dirname file))
                  else os_path_abspath cwd (os_path_dirname file))
                 (str_strip elem)))"
  by (simp add: Setting_path_def Let_def subject_str_def subject_origin_def)

text \<open>
  Claim C3. The string form of the object is read first: on an append-pending setting
  \<open>__path__\<close> raises the \<open>ValueError\<close> of the incomplete value, whatever the origins.
  Otherwise (a plain string, or a setting that is not append-pending), when the trimmed
  text is not an absolute path, \<open>__path__\<close> resolves it against the origin of the object
  itself when the object has an origin and this is not the empty string, whatever origin
  the caller supplies; otherwise against the origin the caller supplies; and when the
  caller supplies none either, it raises the \<open>ValueError\<close> about the missing origin.
\<close>

theorem effective_origin:
  "(\<forall>s. self = SettingObj s \<and> to_append s \<longrightarrow>
      Setting_path cwd glob_escape self origin glob_escape_origin
        = Inl incomplete_value_error) \<and>
   (\<forall>raw. subject_str self = Inr raw \<and> \<not> os_path_isabs (str_strip raw) \<longrightarrow>
      (\<forall>own. subject_origin self = Some own \<and> own \<noteq> [] \<longrightarrow>
         Setting_path cwd glob_escape self origin glob_escape_origin
           = Inr (os_path_normpath
                    (os_path_join
                       (if glob_escape_origin
                        then glob_escape (os_path_abspath cwd (os_path_dirname own))
                        else os_path_abspath cwd (os_path_dirname own))
                       (str_strip raw)))) \<and>
      (\<forall>file. (subject_origin self = None \<or> subject_origin self = Some []) \<and>
              origin = Some file \<longrightarrow>
         Setting_path cwd glob_escape self origin glob_escape_origin
           = Inr (os_path_normpath
                    (os_path_join
                       (if glob_escape_origin
                        then glob_escape (os_path_abspath cwd (os_path_dirname file))
                        else os_path_abspath cwd (os_path_dirname file))
                       (str_strip raw)))) \<and>
      ((subject_origin self = None \<or> subject_origin self = Some []) \<and> origin = None \<longrightarrow>
         Setting_path cwd glob_escape self origin glob_escape_origin
           = Inl missing_origin_error))"
proof -
  have pending: "Setting_path cwd glob_escape self origin glob_escape_origin
                   = Inl incomplete_value_error"
    if "self = SettingObj s" "to_append s" for s
    using that by (simp add: Setting_path_pending)
  have own: "Setting_path cwd glob_escape self origin glob_escape_origin
               = Inr (os_path_normpath
                        (os_path_join
                           (if glob_escape_origin
                            then glob_escape (os_path_abspath cwd (os_path_dirname own))
                            else os_path_abspath cwd (os_path_dirname own))
                           (str_strip raw)))"
    if "subject_str self = Inr raw" "\<not> os_path_isabs (str_strip raw)"
      "subject_origin self = Some own" "own \<noteq> []" for raw own
    using that by (simp add: Setting_path_def Let_def)
  have explicit: "Setting_path cwd glob_escape self origin glob_escape_origin
                    = Inr (os_path_normpath
                             (os_path_join
                                (if glob_escape_origin
                                 then glob_escape (os_path_abspath cwd (os_path_dirname ofile))
                                 else os_path_abspath cwd (os_path_dirname ofile))
                                (str_strip raw)))"
    if "subject_str self = Inr raw" "\<not> os_path_isabs (str_strip raw)"
      "subject_origin self = None \<or> subject_origin self = Some []" "origin = Some ofile"
    for raw ofile
    using that by (auto simp add: Setting_path_def Let_def)
  have missing: "Setting_path cwd glob_escape self origin glob_escape_origin
                   = Inl missing_origin_error"
    if "subject_str self = Inr raw" "\<not> os_path_isabs (str_strip raw)"
      "subject_origin self = None \<or> subject_origin self = Some []" "origin = None"
    for raw
    using that by (auto simp add: Setting_path_def Let_def)
  from pending own explicit missing show ?thesis by blast
qed

text \<open>
  A setting of origin \<open>/a/b/origin.cfg\<close> ignores the caller's \<open>/c/d/other.cfg\<close>; a
  setting whose origin is the empty string uses it; a plain string without any origin
  is refused; the first setting, append-pending, raises before any origin is looked at.
\<close>

theorem effective_origin_witness:
  "Setting_path ''/cwd'' id
     (SettingObj
        \<lparr>value_attr = ''config.ini'', strip_whitespaces = True, list_delimiters = '',;'',
         remove_empty_iter_elements = True, to_append = False, from_cli = False,
         key_attr = ''k'', origin_attr = Str ''/a/b/origin.cfg'', length_attr = 1\<rparr>)
     (Some ''/c/d/other.cfg'') False = Inr ''/a/b/config.ini'' \<and>
   Setting_path ''/cwd'' id
     (SettingObj
        \<lparr>value_attr = ''config.ini'', strip_whitespaces = True, list_delimiters = '',;'',
         remove_empty_iter_elements = True, to_append = False, from_cli = False,
         key_attr = ''k'', origin_attr = Str [], length_attr = 1\<rparr>)
     (Some ''/c/d/other.cfg'') False = Inr ''/c/d/config.ini'' \<and>
   Setting_path ''/cwd'' id (StrObj ''config.ini'') None False = Inl missing_origin_error \<and>
   Setting_path ''/cwd'' id
     (SettingObj
        \<lparr>value_attr = ''config.ini'', strip_whitespaces = True, list_delimiters = '',;'',
         remove_empty_iter_elements = True, to_append = True, from_cli = False,
         key_attr = ''k'', origin_attr = Str ''/a/b/origin.cfg'', length_attr = 1\<rparr>)
     (Some ''/c/d/other.cfg'') False = Inl incomplete_value_error"
proof -
  let ?own = "SettingObj
        \<lparr>value_attr = ''config.ini'', strip_whitespaces = True, list_delimiters = '',;'',
         remove_empty_iter_elements = True, to_append = False, from_cli = False,
         key_attr = ''k'', origin_attr = Str ''/a/b/origin.cfg'', length_attr = 1\<rparr>"
  let ?none = "SettingObj
        \<lparr>value_attr = ''config.ini'', strip_whitespaces = True, list_delimiters = '',;'',
         remove_empty_iter_elements = True, to_append = False, from_cli = False,
         key_attr = ''k'', origin_attr = Str [], length_attr = 1\<rparr>"
  let ?pending = "SettingObj
        \<lparr>value_attr = ''config.ini'', strip_whitespaces = True, list_delimiters = '',;'',
         remove_empty_iter_elements = True, to_append = True, from_cli = False,
         key_attr = ''k'', origin_attr = Str ''/a/b/origin.cfg'', length_attr = 1\<rparr>"
  have strs: "subject_str ?own = Inr ''config.ini''" "subject_str ?none = Inr ''config.ini''"
    "subject_str (StrObj ''config.ini'') = Inr ''config.ini''"
    by code_simp+
  have rel: "\<not> os_path_isabs (str_strip ''config.ini'')"
    by code_simp
  have origins: "subject_origin ?own = Some ''/a/b/origin.cfg''"
    "subject_origin ?none = Some []" "subject_origin (StrObj ''config.ini'') = None"
    by code_simp+
  have paths:
    "os_path_normpath (os_path_join (os_path_abspath ''/cwd'' (os_path_dirname ''/a/b/origin.cfg''))
       (str_strip ''config.ini'')) = ''/a/b/config.ini''"
    "os_path_normpath (os_path_join (os_path_abspath ''/cwd'' (os_path_dirname ''/c/d/other.cfg''))
       (str_strip ''config.ini'')) = ''/c/d/config.ini''"
    by code_simp+
  from effective_origin [of ?own "''/cwd''" id "Some ''/c/d/other.cfg''" False]
  have a: "Setting_path ''/cwd'' id ?own (Some ''/c/d/other.cfg'') False
             = Inr ''/a/b/config.ini''"
    using strs(1) rel origins(1) paths(1) by simp
  from effective_origin [of ?none "''/cwd''" id "Some ''/c/d/other.cfg''" False]
  have b: "Setting_path ''/cwd'' id ?none (Some ''/c/d/other.cfg'') False
             = Inr ''/c/d/config.ini''"
    using strs(2) rel origins(2) paths(2) by simp
  from effective_origin [of "StrObj ''config.ini''" "''/cwd''" id None False]
  have c: "Setting_path ''/cwd'' id (StrObj ''config.ini'') None False
             = Inl missing_origin_error"
    using strs(3) rel origins(3) by simp
  from effective_origin [of ?pending "''/cwd''" id "Some ''/c/d/other.cfg''" False]
  have d: "Setting_path ''/cwd'' id ?pending (Some ''/c/d/other.cfg'') False
             = Inl incomplete_value_error"
    by simp
  from a b c d show ?thesis by blast
qed

text \<open>
  Claim C4, as stated, fails: the text \<open>"/a/b "\<close> is an absolute path, and \<open>__path__\<close>
  returns it without its trailing space.
\<close>

theorem absolute_text_unchanged_counterexample:
  "os_path_isabs ''/a/b '' \<and>
   Setting_path ''/cwd'' id (StrObj ''/a/b '') None False \<noteq> Inr ''/a/b ''"
  by code_simp

text \<open>
  Claim C4, amended. When the string form of the object can be read (a plain string, or
  a setting that is not append-pending) and the trimmed text is an absolute path,
  \<open>__path__\<close> returns the trimmed text, with any origin and with none, and does not
  raise; a text that is an absolute path and has no surrounding whitespace is returned
  unchanged. On an append-pending setting \<open>__path__\<close> raises the \<open>ValueError\<close> of the
  incomplete value, whatever the text and the origin.
\<close>

theorem absolute_text_returned_trimmed:
  "(\<forall>raw. subject_str self = Inr raw \<and> os_path_isabs (str_strip raw) \<longrightarrow>
      Setting_path cwd glob_escape self origin glob_escape_origin = Inr (str_strip raw)) \<and>
   (\<forall>raw. subject_str self = Inr raw \<and> os_path_isabs raw \<and> str_strip raw = raw \<longrightarrow>
      Setting_path cwd glob_escape self origin glob_escape_origin = Inr raw) \<and>
   (\<forall>s. self = SettingObj s \<and> to_append s \<longrightarrow>
      Setting_path cwd glob_escape self origin glob_escape_origin
        = Inl incomplete_value_error)"
proof -
  have trimmed: "Setting_path cwd glob_escape self origin glob_escape_origin
                   = Inr (str_strip raw)"
    if "subject_str self = Inr raw" "os_path_isabs (str_strip raw)" for raw
    using that by (simp add: Setting_path_def Let_def)
  have unchanged: "Setting_path cwd glob_escape self origin glob_escape_origin = Inr raw"
    if "subject_str self = Inr raw" "os_path_isabs raw" "str_strip raw = raw" for raw
    using that by (simp add: Setting_path_def Let_def)
  have pending: "Setting_path cwd glob_escape self origin glob_escape_origin
                   = Inl incomplete_value_error"
    if "self = SettingObj s" "to_append s" for s
    using that by (simp add: Setting_path_pending)
  from trimmed unchanged pending show ?thesis by blast
qed

text \<open>
  The plain strings \<open>"/a/b "\<close> and \<open>"/a/b"\<close> both give \<open>/a/b\<close> without any origin, and so
  does a setting of text \<open>/a/b\<close>; the same setting, append-pending, raises.
\<close>

theorem absolute_text_returned_trimmed_witness:
  "Setting_path ''/cwd'' id (StrObj ''/a/b '') None False = Inr ''/a/b'' \<and>
   Setting_path ''/cwd'' id (StrObj ''/a/b'') None False = Inr ''/a/b'' \<and>
   Setting_path ''/cwd'' id
     (SettingObj
        \<lparr>value_attr = ''/a/b'', strip_whitespaces = True, list_delimiters = '',;'',
         remove_empty_iter_elements = True, to_append = False, from_cli = False,
         key_attr = ''k'', origin_attr = Str [], length_attr = 1\<rparr>)
     None False = Inr ''/a/b'' \<and>
   Setting_path ''/cwd'' id
     (SettingObj
        \<lparr>value_attr = ''/a/b'', strip_whitespaces = True, list_delimiters = '',;'',
         remove_empty_iter_elements = True, to_append = True, from_cli = False,
         key_attr = ''k'', origin_attr = Str [], length_attr = 1\<rparr>)
     None False = Inl incomplete_value_error"
proof -
  let ?plain = "SettingObj
        \<lparr>value_attr = ''/a/b'', strip_whitespaces = True, list_delimiters = '',;'',
         remove_empty_iter_elements = True, to_append = False, from_cli = False,
         key_attr = ''k'', origin_attr = Str [], length_attr = 1\<rparr>"
  let ?pending = "SettingObj
        \<lparr>value_attr = ''/a/b'', strip_whitespaces = True, list_delimiters = '',;'',
         remove_empty_iter_elements = True, to_append = True, from_cli = False,
         key_attr = ''k'', origin_attr = Str [], length_attr = 1\<rparr>"
  have strs: "subject_str (StrObj ''/a/b '') = Inr ''/a/b ''"
    "subject_str (StrObj ''/a/b'') = Inr ''/a/b''"
    "subject_str ?plain = Inr ''/a/b''"
    by code_simp+
  have facts: "os_path_isabs (str_strip ''/a/b '')" "str_strip ''/a/b '' = ''/a/b''"
    "os_path_isabs ''/a/b''" "str_strip ''/a/b'' = ''/a/b''"
    by code_simp+
  from absolute_text_returned_trimmed [of "StrObj ''/a/b ''" "''/cwd''" id None False]
  have a: "Setting_path ''/cwd'' id (StrObj ''/a/b '') None False = Inr ''/a/b''"
    using strs(1) facts(1,2) by simp
  from absolute_text_returned_trimmed [of "StrObj ''/a/b''" "''/cwd''" id None False]
  have b: "Setting_path ''/cwd'' id (StrObj ''/a/b'') None False = Inr ''/a/b''"
    using strs(2) facts(3,4) by simp
  from absolute_text_returned_trimmed [of ?plain "''/cwd''" id None False]
  have c: "Setting_path ''/cwd'' id ?plain None False = Inr ''/a/b''"
    using strs(3) facts(3,4) by simp
  from absolute_text_returned_trimmed [of ?pending "''/cwd''" id None False]
  have d: "Setting_path ''/cwd'' id ?pending None False = Inl incomplete_value_error"
    by simp
  from a b c d show ?thesis by blast
qed

subsection \<open>Facts about \<open>os.path\<close>\<close>

lemma str_split_nonempty: "str_split c s \<noteq> []"
  by (induction s) (auto split: list.splits)

lemma str_split_append_sep: "str_split c (s @ [c]) = str_split c s @ [[]]"
proof (induction s)
  case Nil
  show ?case by simp
next
  case (Cons x xs)
  obtain w ws where "str_split c xs = w # ws"
    using str_split_nonempty [of c xs] by (cases "str_split c xs") auto
  with Cons show ?case by simp
qed

lemma normpath_step_empty: "normpath_step n comps [] = comps"
  by (simp add: normpath_step_def)

lemma startswith_append_sep:
  assumes "s \<noteq> []" and "last s \<noteq> CHR ''/''"
  shows "startswith (s @ ''/'') ''/'' = startswith s ''/''"
    and "startswith (s @ ''/'') ''//'' = startswith s ''//''"
    and "startswith (s @ ''/'') ''///'' = startswith s ''///''"
proof -
  show "startswith (s @ ''/'') ''/'' = startswith s ''/''"
    using assms by (cases s) (auto simp: startswith_def)
  show "startswith (s @ ''/'') ''//'' = startswith s ''//''"
    using assms by (cases s; cases "tl s") (auto simp: startswith_def)
  show "startswith (s @ ''/'') ''///'' = startswith s ''///''"
    using assms by (cases s; cases "tl s"; cases "tl (tl s)") (auto simp: startswith_def)
qed

lemma normpath_append_sep:
  assumes "s \<noteq> []" and "last s \<noteq> CHR ''/''"
  shows "os_path_normpath (s @ ''/'') = os_path_normpath s"
  using assms
  by (simp add: os_path_normpath_def startswith_append_sep [OF assms]
        str_split_append_sep [of "CHR ''/''" s, simplified] normpath_step_empty Let_def)

lemma endswith_sep: "endswith s ''/'' \<longleftrightarrow> s \<noteq> [] \<and> last s = CHR ''/''"
  by (cases s rule: rev_cases) (auto simp: endswith_def startswith_def)

lemma dirname_empty: "os_path_dirname [] = []"
  by (simp add: os_path_dirname_def)

lemma abspath_empty: "os_path_abspath cwd [] = os_path_normpath cwd"
proof (cases "cwd = [] \<or> endswith cwd ''/''")
  case True
  then show ?thesis
    by (auto simp: os_path_abspath_def os_path_isabs_def os_path_join_def startswith_def)
next
  case False
  then have "cwd \<noteq> []" "last cwd \<noteq> CHR ''/''" by (auto simp: endswith_sep)
  from normpath_append_sep [OF this] False show ?thesis
    by (simp add: os_path_abspath_def os_path_isabs_def os_path_join_def startswith_def)
qed

lemma str_split_no_sep: "c \<notin> set t \<Longrightarrow> str_split c t = [t]"
  by (induction t) auto

lemma str_split_append_name:
  "c \<notin> set t \<Longrightarrow> str_split c (a @ c # t) = str_split c a @ [t]"
proof (induction a)
  case Nil
  then show ?case by (simp add: str_split_no_sep)
next
  case (Cons x xs)
  obtain w ws where "str_split c xs = w # ws"
    using str_split_nonempty [of c xs] by (cases "str_split c xs") auto
  with Cons show ?case by simp
qed

lemma normpath_step_name:
  "t \<noteq> [] \<Longrightarrow> t \<noteq> ''.'' \<Longrightarrow> t \<noteq> ''..'' \<Longrightarrow> normpath_step n comps t = comps @ [t]"
  by (simp add: normpath_step_def)

lemma str_join_snoc:
  "str_join sep (comps @ [t]) = (if comps = [] then t else str_join sep comps @ sep @ t)"
  by (induction sep comps rule: str_join.induct) auto

lemma startswith_join_name:
  assumes "startswith d ''/''" and "t \<noteq> []" and "CHR ''/'' \<notin> set t"
  shows "startswith (os_path_join d t) ''/'' = startswith d ''/''"
    and "startswith (os_path_join d t) ''//'' = startswith d ''//''"
    and "startswith (os_path_join d t) ''///'' = startswith d ''///''"
proof -
  from assms obtain t0 ts where t: "t = t0 # ts" "t0 \<noteq> CHR ''/''"
    by (cases t) auto
  from assms(1) obtain ds where d: "d = CHR ''/'' # ds"
    by (cases d) (auto simp: startswith_def)
  show "startswith (os_path_join d t) ''/'' = startswith d ''/''"
    using t d by (auto simp: os_path_join_def startswith_def)
  show "startswith (os_path_join d t) ''//'' = startswith d ''//''"
    using t d by (cases ds) (auto simp: os_path_join_def startswith_def endswith_def)
  show "startswith (os_path_join d t) ''///'' = startswith d ''///''"
    using t d by (cases ds; cases "tl ds")
      (auto simp: os_path_join_def startswith_def endswith_def)
qed

lemma comps_join_name:
  assumes "d \<noteq> []" and "t \<noteq> []" and "CHR ''/'' \<notin> set t" and "t \<noteq> ''.''" and "t \<noteq> ''..''"
  shows "foldl (normpath_step n) [] (str_split CHR ''/'' (os_path_join d t))
         = foldl (normpath_step n) [] (str_split CHR ''/'' d) @ [t]"
proof (cases "endswith d ''/''")
  case True
  then obtain d0 where d: "d = d0 @ ''/''"
    by (cases d rule: rev_cases) (auto simp: endswith_sep)
  from assms have nt: "\<not> startswith t ''/''"
    by (cases t) (auto simp: startswith_def)
  have "os_path_join d t = d0 @ CHR ''/'' # t"
    using True nt d by (simp add: os_path_join_def)
  then show ?thesis
    using assms d
    by (simp add: str_split_append_name str_split_append_sep [of "CHR ''/''" d0, simplified]
          normpath_step_name normpath_step_empty)
next
  case False
  from assms have nt: "\<not> startswith t ''/''"
    by (cases t) (auto simp: startswith_def)
  have "os_path_join d t = d @ CHR ''/'' # t"
    using False nt assms(1) by (simp add: os_path_join_def)
  then show ?thesis
    using assms by (simp add: str_split_append_name normpath_step_name)
qed

lemma normpath_join_name:
  assumes "startswith d ''/''" and "t \<noteq> []" and "CHR ''/'' \<notin> set t"
    and "t \<noteq> ''.''" and "t \<noteq> ''..''"
  shows "\<exists>sep. (sep = [] \<or> sep = ''/'') \<and>
           os_path_normpath (os_path_join d t) = os_path_normpath d @ sep @ t"
proof -
  from assms(1) have d: "d \<noteq> []" by (auto simp: startswith_def)
  then have j: "os_path_join d t \<noteq> []"
    using assms(2) by (auto simp: os_path_join_def)
  let ?n = "if startswith d ''//'' \<and> \<not> startswith d ''///'' then 2 else (1::nat)"
  let ?comps = "foldl (normpath_step ?n) [] (str_split CHR ''/'' d)"
  have nd: "os_path_normpath d = replicate ?n CHR ''/'' @ str_join ''/'' ?comps"
    using d assms(1) by (simp add: os_path_normpath_def Let_def)
  have nj: "os_path_normpath (os_path_join d t)
              = replicate ?n CHR ''/'' @ str_join ''/'' (?comps @ [t])"
    using j assms(1) startswith_join_name [OF assms(1,2,3)]
      comps_join_name [OF d assms(2,3,4,5)]
    by (simp add: os_path_normpath_def Let_def)
  show ?thesis
  proof (cases "?comps = []")
    case True
    with nd nj have "os_path_normpath (os_path_join d t) = os_path_normpath d @ [] @ t"
      by (simp add: str_join_snoc)
    then show ?thesis by blast
  next
    case False
    with nd nj have "os_path_normpath (os_path_join d t) = os_path_normpath d @ ''/'' @ t"
      by (simp add: str_join_snoc)
    then show ?thesis by blast
  qed
qed

subsection \<open>Glob paths\<close>

text \<open>
  Claim C1. The string form of the object is read first: on an append-pending setting
  \<open>__glob__\<close> raises the \<open>ValueError\<close> of the incomplete value. Otherwise, for a text
  that is not an absolute path and an origin that is available (the object's own when
  it is not empty, otherwise the caller's), \<open>__glob__\<close> takes the absolute path of the
  origin's directory, applies \<open>glob_escape\<close> to that string and to nothing else, joins
  the text and normalises. So when the directory needs no escaping the result is that of
  \<open>__path__\<close>, whatever the text contains; and a text that is a single file name stands
  at the end of the result as it is, after the normalised escaped directory.
\<close>

theorem glob_escapes_origin_directory_only:
  "(\<forall>s. self = SettingObj s \<and> to_append s \<longrightarrow>
      Setting_glob cwd glob_escape self origin = Inl incomplete_value_error) \<and>
   (\<forall>raw file.
      subject_str self = Inr raw \<and> \<not> os_path_isabs (str_strip raw) \<and>
      (subject_origin self = Some file \<and> file \<noteq> [] \<or>
       (subject_origin self = None \<or> subject_origin self = Some []) \<and> origin = Some file)
      \<longrightarrow>
      Setting_glob cwd glob_escape self origin
        = Inr (os_path_normpath
                 (os_path_join (glob_escape (os_path_abspath cwd (os_path_dirname file)))
                    (str_strip raw))) \<and>
      (glob_escape (os_path_abspath cwd (os_path_dirname file))
         = os_path_abspath cwd (os_path_dirname file) \<longrightarrow>
       Setting_glob cwd glob_escape self origin
         = Setting_path cwd glob_escape self origin False) \<and>
      (os_path_isabs (glob_escape (os_path_abspath cwd (os_path_dirname file))) \<and>
       str_strip raw \<noteq> [] \<and> CHR ''/'' \<notin> set (str_strip raw) \<and>
       str_strip raw \<noteq> ''.'' \<and> str_strip raw \<noteq> ''..'' \<longrightarrow>
       (\<exists>sep. (sep = [] \<or> sep = ''/'') \<and>
          Setting_glob cwd glob_escape self origin
            = Inr (os_path_normpath (glob_escape (os_path_abspath cwd (os_path_dirname file)))
                   @ sep @ str_strip raw))))"
proof -
  have pending: "Setting_glob cwd glob_escape self origin = Inl incomplete_value_error"
    if "self = SettingObj s" "to_append s" for s
    using that by (simp add: Setting_glob_def Setting_path_pending)
  have resolved:
    "Setting_glob cwd glob_escape self origin
       = Inr (os_path_normpath
                (os_path_join (glob_escape (os_path_abspath cwd (os_path_dirname ofile)))
                   (str_strip raw))) \<and>
     (glob_escape (os_path_abspath cwd (os_path_dirname ofile))
        = os_path_abspath cwd (os_path_dirname ofile) \<longrightarrow>
      Setting_glob cwd glob_escape self origin
        = Setting_path cwd glob_escape self origin False) \<and>
     (os_path_isabs (glob_escape (os_path_abspath cwd (os_path_dirname ofile))) \<and>
      str_strip raw \<noteq> [] \<and> CHR ''/'' \<notin> set (str_strip raw) \<and>
      str_strip raw \<noteq> ''.'' \<and> str_strip raw \<noteq> ''..'' \<longrightarrow>
      (\<exists>sep. (sep = [] \<or> sep = ''/'') \<and>
         Setting_glob cwd glob_escape self origin
           = Inr (os_path_normpath (glob_escape (os_path_abspath cwd (os_path_dirname ofile)))
                  @ sep @ str_strip raw)))"
    if str: "subject_str self = Inr raw" and rel: "\<not> os_path_isabs (str_strip raw)"
      and avail: "subject_origin self = Some ofile \<and> ofile \<noteq> [] \<or>
         (subject_origin self = None \<or> subject_origin self = Some []) \<and> origin = Some ofile"
    for raw ofile
  proof -
    let ?dir = "glob_escape (os_path_abspath cwd (os_path_dirname ofile))"
    let ?name = "str_strip raw"
    have glob: "Setting_glob cwd glob_escape self origin
                  = Inr (os_path_normpath (os_path_join ?dir ?name))"
      using str rel avail by (auto simp add: Setting_glob_def Setting_path_def Let_def)
    have plain: "?dir = os_path_abspath cwd (os_path_dirname ofile) \<longrightarrow>
                   Setting_glob cwd glob_escape self origin
                     = Setting_path cwd glob_escape self origin False"
      using str rel avail by (auto simp add: Setting_glob_def Setting_path_def Let_def)
    have verbatim:
      "os_path_isabs ?dir \<and> ?name \<noteq> [] \<and> CHR ''/'' \<notin> set ?name \<and>
       ?name \<noteq> ''.'' \<and> ?name \<noteq> ''..'' \<longrightarrow>
       (\<exists>sep. (sep = [] \<or> sep = ''/'') \<and>
          Setting_glob cwd glob_escape self origin
            = Inr (os_path_normpath ?dir @ sep @ ?name))"
      using normpath_join_name [of ?dir ?name] glob
      by (auto simp add: os_path_isabs_def)
    from glob plain verbatim show ?thesis by blast
  qed
  from pending resolved show ?thesis by blast
qed

text \<open>
  The text \<open>x*.py\<close> with the origin \<open>/a/[b]/origin.cfg\<close>, as a plain string that takes the
  caller's origin and as a setting that has this origin: only the directory is escaped.
  With \<open>/a/b/origin.cfg\<close> nothing is. The setting, append-pending, raises.
\<close>

theorem glob_escapes_origin_directory_only_witness:
  "Setting_glob ''/cwd'' spec_glob_escape (StrObj ''x*.py'') (Some ''/a/[b]/origin.cfg'')
     = Inr (''/a/'' @ [CHR 0x5C] @ ''[b'' @ [CHR 0x5C] @ '']/x*.py'') \<and>
   Setting_glob ''/cwd'' spec_glob_escape (StrObj ''x*.py'') (Some ''/a/b/origin.cfg'')
     = Inr ''/a/b/x*.py'' \<and>
   Setting_glob ''/cwd'' spec_glob_escape
     (SettingObj
        \<lparr>value_attr = ''x*.py'', strip_whitespaces = True, list_delimiters = '',;'',
         remove_empty_iter_elements = True, to_append = False, from_cli = False,
         key_attr = ''files'', origin_attr = Str ''/a/[b]/origin.cfg'', length_attr = 1\<rparr>)
     None
     = Inr (''/a/'' @ [CHR 0x5C] @ ''[b'' @ [CHR 0x5C] @ '']/x*.py'') \<and>
   Setting_glob ''/cwd'' spec_glob_escape
     (SettingObj
        \<lparr>value_attr = ''x*.py'', strip_whitespaces = True, list_delimiters = '',;'',
         remove_empty_iter_elements = True, to_append = True, from_cli = False,
         key_attr = ''files'', origin_attr = Str ''/a/[b]/origin.cfg'', length_attr = 1\<rparr>)
     None
     = Inl incomplete_value_error"
proof -
  let ?own = "SettingObj
        \<lparr>value_attr = ''x*.py'', strip_whitespaces = True, list_delimiters = '',;'',
         remove_empty_iter_elements = True, to_append = False, from_cli = False,
         key_attr = ''files'', origin_attr = Str ''/a/[b]/origin.cfg'', length_attr = 1\<rparr>"
  let ?pending = "SettingObj
        \<lparr>value_attr = ''x*.py'', strip_whitespaces = True, list_delimiters = '',;'',
         remove_empty_iter_elements = True, to_append = True, from_cli = False,
         key_attr = ''files'', origin_attr = Str ''/a/[b]/origin.cfg'', length_attr = 1\<rparr>"
  have strs: "subject_str (StrObj ''x*.py'') = Inr ''x*.py''" "subject_str ?own = Inr ''x*.py''"
    by code_simp+
  have origins: "subject_origin (StrObj ''x*.py'') = None"
    "subject_origin ?own = Some ''/a/[b]/origin.cfg''"
    by code_simp+
  have rel: "\<not> os_path_isabs (str_strip ''x*.py'')"
    by code_simp
  have stripped: "str_strip ''x*.py'' = ''x*.py''"
    by code_simp
  have dirs:
    "spec_glob_escape (os_path_abspath ''/cwd'' (os_path_dirname ''/a/[b]/origin.cfg''))
       = ''/a/'' @ [CHR 0x5C] @ ''[b'' @ [CHR 0x5C] @ '']''"
    "os_path_abspath ''/cwd'' (os_path_dirname ''/a/b/origin.cfg'') = ''/a/b''"
    "spec_glob_escape ''/a/b'' = ''/a/b''"
    by code_simp+
  have paths:
    "os_path_normpath
       (os_path_join (''/a/'' @ [CHR 0x5C] @ ''[b'' @ [CHR 0x5C] @ '']'') ''x*.py'')
     = ''/a/'' @ [CHR 0x5C] @ ''[b'' @ [CHR 0x5C] @ '']/x*.py''"
    "os_path_normpath (os_path_join ''/a/b'' ''x*.py'') = ''/a/b/x*.py''"
    by code_simp+
  note inst = glob_escapes_origin_directory_only [of _ "''/cwd''" spec_glob_escape]
  from inst [of "StrObj ''x*.py''" "Some ''/a/[b]/origin.cfg''",
             THEN conjunct2, rule_format, of "''x*.py''" "''/a/[b]/origin.cfg''"]
  have a: "Setting_glob ''/cwd'' spec_glob_escape (StrObj ''x*.py'') (Some ''/a/[b]/origin.cfg'')
             = Inr (''/a/'' @ [CHR 0x5C] @ ''[b'' @ [CHR 0x5C] @ '']/x*.py'')"
    using strs(1) origins(1) rel stripped dirs(1) paths(1) by simp
  from inst [of "StrObj ''x*.py''" "Some ''/a/b/origin.cfg''",
             THEN conjunct2, rule_format, of "''x*.py''" "''/a/b/origin.cfg''"]
  have b: "Setting_glob ''/cwd'' spec_glob_escape (StrObj ''x*.py'') (Some ''/a/b/origin.cfg'')
             = Inr ''/a/b/x*.py''"
    using strs(1) origins(1) rel stripped dirs(2,3) paths(2) by simp
  from inst [of ?own None,
             THEN conjunct2, rule_format, of "''x*.py''" "''/a/[b]/origin.cfg''"]
  have c: "Setting_glob ''/cwd'' spec_glob_escape ?own None
             = Inr (''/a/'' @ [CHR 0x5C] @ ''[b'' @ [CHR 0x5C] @ '']/x*.py'')"
    using strs(2) origins(2) rel stripped dirs(1) paths(1) by simp
  from inst [of ?pending None]
  have d: "Setting_glob ''/cwd'' spec_glob_escape ?pending None = Inl incomplete_value_error"
    by simp
  from a b c d show ?thesis by blast
qed

subsection \<open>Path lists\<close>

lemma Setting_path_list_Inr:
  "\<not> to_append s \<Longrightarrow>
   Setting_path_list cwd glob_escape s
     = Inr (map (\<lambda>elem. if os_path_isabs (str_strip elem) then str_strip elem
                        else os_path_normpath
                          (os_path_join (os_path_abspath cwd (os_path_dirname (Setting_origin s)))
                             (str_strip elem)))
              (StringConverter_iter s))"
  by (simp add: Setting_path_list_def Setting_iter_def Setting_path_StrObj collect_all_Inr)

lemma Setting_glob_list_Inr:
  "\<not> to_append s \<Longrightarrow>
   Setting_glob_list cwd glob_escape s
     = Inr (map (\<lambda>elem. if os_path_isabs (str_strip elem) then str_strip elem
                        else os_path_normpath
                          (os_path_join
                             (glob_escape (os_path_abspath cwd (os_path_dirname (Setting_origin s))))
                             (str_strip elem)))
              (StringConverter_iter s))"
  by (simp add: Setting_glob_list_def Setting_glob_def Setting_iter_def Setting_path_StrObj
        collect_all_Inr)

text \<open>
  Claim C5. \<open>__path_list__\<close> takes no origin from the caller: on a setting that is not
  append-pending it returns, in the order of the iteration, each element resolved
  against the directory of the setting's own origin (an element that is an absolute
  path is returned trimmed); on an append-pending setting the iteration raises.
\<close>

theorem path_list_uses_own_origin:
  "(\<not> to_append s \<longrightarrow>
      Setting_path_list cwd glob_escape s
        = Inr (map (\<lambda>elem. if os_path_isabs (str_strip elem) then str_strip elem
                           else os_path_normpath
                             (os_path_join
                                (os_path_abspath cwd (os_path_dirname (Setting_origin s)))
                                (str_strip elem)))
                 (StringConverter_iter s))) \<and>
   (to_append s \<longrightarrow> Setting_path_list cwd glob_escape s = Inl incomplete_iteration_error)"
  by (simp add: Setting_path_list_Inr) (simp add: Setting_path_list_def Setting_iter_def)

text \<open>The value \<open>a.py, b.py\<close> of a setting read from \<open>/x/y/origin.cfg\<close>.\<close>

theorem path_list_uses_own_origin_witness:
  "\<exists>s. Setting_init id ''files'' ''a.py, b.py'' (Str ''/x/y/origin.cfg'')
          True '',;'' False True False = Inr s \<and>
       Setting_path_list ''/cwd'' id s = Inr [''/x/y/a.py'', ''/x/y/b.py'']"
proof -
  let ?s = "\<lparr>value_attr = ''a.py, b.py'', strip_whitespaces = True,
             list_delimiters = '',;'', remove_empty_iter_elements = True,
             to_append = False, from_cli = False, key_attr = ''files'',
             origin_attr = Str ''/x/y/origin.cfg'', length_attr = 1\<rparr>"
  have init: "Setting_init id ''files'' ''a.py, b.py'' (Str ''/x/y/origin.cfg'')
                True '',;'' False True False = Inr ?s"
    by code_simp
  have paths:
    "map (\<lambda>elem. if os_path_isabs (str_strip elem) then str_strip elem
                 else os_path_normpath
                   (os_path_join
                      (os_path_abspath ''/cwd'' (os_path_dirname (Setting_origin ?s)))
                      (str_strip elem)))
       (StringConverter_iter ?s) = [''/x/y/a.py'', ''/x/y/b.py'']"
    by code_simp
  from path_list_uses_own_origin [of ?s "''/cwd''" id] paths
  have "Setting_path_list ''/cwd'' id ?s = Inr [''/x/y/a.py'', ''/x/y/b.py'']"
    by simp
  with init show ?thesis by blast
qed

text \<open>
  Claim C10. On a setting that is not append-pending and whose stored origin is the
  empty string, \<open>__path_list__\<close> and \<open>__glob_list__\<close> do not raise the \<open>ValueError\<close>
  about the missing origin: the empty string is passed as the origin of every element,
  its directory is the empty path, and the absolute path of that is the normalised
  working directory, against which the relative elements are resolved.
\<close>

theorem empty_origin_resolves_against_cwd:
  assumes "\<not> to_append s" and "origin_attr s = Str []"
  shows
  "Setting_path_list cwd glob_escape s
     = Inr (map (\<lambda>elem. if os_path_isabs (str_strip elem) then str_strip elem
                        else os_path_normpath
                          (os_path_join (os_path_normpath cwd) (str_strip elem)))
              (StringConverter_iter s)) \<and>
   Setting_glob_list cwd glob_escape s
     = Inr (map (\<lambda>elem. if os_path_isabs (str_strip elem) then str_strip elem
                        else os_path_normpath
                          (os_path_join (glob_escape (os_path_normpath cwd)) (str_strip elem)))
              (StringConverter_iter s)) \<and>
   Setting_path_list cwd glob_escape s \<noteq> Inl missing_origin_error \<and>
   Setting_glob_list cwd glob_escape s \<noteq> Inl missing_origin_error"
proof -
  from assms(2) have "Setting_origin s = []"
    by (simp add: Setting_origin_def)
  with assms(1) show ?thesis
    by (simp add: Setting_path_list_Inr Setting_glob_list_Inr dirname_empty abspath_empty)
qed

theorem empty_origin_resolves_against_cwd_witness:
  "\<exists>s. Setting_init id ''files'' ''a.py, sub/b*.py'' (Str []) True '',;'' False True False
          = Inr s \<and>
       Setting_path_list ''/home/user/project'' spec_glob_escape s
          = Inr [''/home/user/project/a.py'', ''/home/user/project/sub/b*.py''] \<and>
       Setting_glob_list ''/home/user/project'' spec_glob_escape s
          = Inr [''/home/user/project/a.py'', ''/home/user/project/sub/b*.py'']"
proof -
  let ?s = "\<lparr>value_attr = ''a.py, sub/b*.py'', strip_whitespaces = True,
             list_delimiters = '',;'', remove_empty_iter_elements = True,
             to_append = False, from_cli = False, key_attr = ''files'',
             origin_attr = Str [], length_attr = 1\<rparr>"
  have init: "Setting_init id ''files'' ''a.py, sub/b*.py'' (Str []) True '',;'' False True False
                = Inr ?s"
    by code_simp
  have pre: "\<not> to_append ?s" "origin_attr ?s = Str []"
    by simp_all
  have paths:
    "map (\<lambda>elem. if os_path_isabs (str_strip elem) then str_strip elem
                 else os_path_normpath
                   (os_path_join (os_path_normpath ''/home/user/project'') (str_strip elem)))
       (StringConverter_iter ?s)
     = [''/home/user/project/a.py'', ''/home/user/project/sub/b*.py'']"
    "map (\<lambda>elem. if os_path_isabs (str_strip elem) then str_strip elem
                 else os_path_normpath
                   (os_path_join (spec_glob_escape (os_path_normpath ''/home/user/project''))
                      (str_strip elem)))
       (StringConverter_iter ?s)
     = [''/home/user/project/a.py'', ''/home/user/project/sub/b*.py'']"
    by code_simp+
  from empty_origin_resolves_against_cwd [OF pre, of "''/home/user/project''" spec_glob_escape]
    paths
  have "Setting_path_list ''/home/user/project'' spec_glob_escape ?s
          = Inr [''/home/user/project/a.py'', ''/home/user/project/sub/b*.py''] \<and>
        Setting_glob_list ''/home/user/project'' spec_glob_escape ?s
          = Inr [''/home/user/project/a.py'', ''/home/user/project/sub/b*.py'']"
    by simp
  with init show ?thesis by blast
qed

subsection \<open>Typed lists\<close>

lemma collect_Inl:
  "x \<in> set xs \<Longrightarrow> f x = Inl e \<Longrightarrow> \<exists>e'. collect f xs = Inl e'"
  by (induction xs) (auto split: sum.splits)

text \<open>
  Claim C6. For every conversion function and every setting that is not append-pending,
  \<open>typed_list\<close> returns, in the order of the iteration, the conversion of every iterated
  element: when every conversion succeeds the result is the list of the converted elements,
  and when one raises the call raises. On an append-pending setting the call raises the error
  that the iteration itself raises.
\<close>

theorem typed_list_converts_elements:
  "(\<not> to_append s \<and>
    (\<forall>elem \<in> set (StringConverter_iter s). f (StringConverter_of elem) = Inr (g elem)) \<longrightarrow>
      typed_list f s = Inr (map g (StringConverter_iter s))) \<and>
   (\<not> to_append s \<and>
    (\<exists>elem \<in> set (StringConverter_iter s). \<exists>e. f (StringConverter_of elem) = Inl e) \<longrightarrow>
      (\<exists>e. typed_list f s = Inl e)) \<and>
   (to_append s \<longrightarrow>
      typed_list f s = Inl incomplete_iteration_error \<and>
      Setting_iter s = Inl incomplete_iteration_error)"
proof -
  have ok: "typed_list f s = Inr (map g (StringConverter_iter s))"
    if "\<not> to_append s"
      and "\<forall>elem \<in> set (StringConverter_iter s). f (StringConverter_of elem) = Inr (g elem)"
    using that by (simp add: typed_list_def Setting_iter_def collect_all_Inr)
  have bad: "\<exists>e. typed_list f s = Inl e"
    if "\<not> to_append s"
      and "\<exists>elem \<in> set (StringConverter_iter s). \<exists>e. f (StringConverter_of elem) = Inl e"
  proof -
    from that(2) obtain elem e where
      "elem \<in> set (StringConverter_iter s)" "f (StringConverter_of elem) = Inl e"
      by blast
    from collect_Inl [of elem "StringConverter_iter s" "\<lambda>elem. f (StringConverter_of elem)" e, OF this]
    show ?thesis
      using that(1) by (simp add: typed_list_def Setting_iter_def)
  qed
  have pending: "typed_list f s = Inl incomplete_iteration_error \<and>
                 Setting_iter s = Inl incomplete_iteration_error"
    if "to_append s"
    using that by (simp add: typed_list_def Setting_iter_def)
  from ok bad pending show ?thesis by blast
qed

text \<open>
  The text \<open>1, 2,3\<close> with the delimiters \<open>,\<close> and \<open>;\<close>, converted with \<open>int\<close>, is
  \<open>[1, 2, 3]\<close>; the same setting append-pending raises.
\<close>

theorem typed_list_converts_elements_witness:
  "(\<exists>s. Setting_init id ''numbers'' ''1, 2,3'' (Str []) True '',;'' False True False = Inr s \<and>
        typed_list py_int_of s = Inr [1, 2, 3]) \<and>
   (\<exists>s. Setting_init id ''numbers'' ''1, 2,3'' (Str []) True '',;'' False True True = Inr s \<and>
        typed_list py_int_of s = Inl incomplete_iteration_error)"
proof -
  let ?s = "\<lparr>value_attr = ''1, 2,3'', strip_whitespaces = True,
             list_delimiters = '',;'', remove_empty_iter_elements = True,
             to_append = False, from_cli = False, key_attr = ''numbers'',
             origin_attr = Str [], length_attr = 1\<rparr>"
  let ?p = "\<lparr>value_attr = ''1, 2,3'', strip_whitespaces = True,
             list_delimiters = '',;'', remove_empty_iter_elements = True,
             to_append = True, from_cli = False, key_attr = ''numbers'',
             origin_attr = Str [], length_attr = 1\<rparr>"
  let ?g = "\<lambda>elem. projr (py_int_of (StringConverter_of elem))"
  have init: "Setting_init id ''numbers'' ''1, 2,3'' (Str []) True '',;'' False True False = Inr ?s"
    "Setting_init id ''numbers'' ''1, 2,3'' (Str []) True '',;'' False True True = Inr ?p"
    by code_simp+
  have elems: "StringConverter_iter ?s = [''1'', ''2'', ''3'']"
    by code_simp
  have conv: "py_int_of (StringConverter_of ''1'') = Inr 1"
    "py_int_of (StringConverter_of ''2'') = Inr 2"
    "py_int_of (StringConverter_of ''3'') = Inr 3"
    by code_simp+
  from typed_list_converts_elements [of ?s py_int_of ?g]
  have "typed_list py_int_of ?s = Inr [1, 2, 3]"
    by (simp add: elems conv)
  moreover
  from typed_list_converts_elements [of ?p py_int_of ?g]
  have "typed_list py_int_of ?p = Inl incomplete_iteration_error"
    by simp
  ultimately show ?thesis
    using init by blast
qed

subsection \<open>Typed dictionaries\<close>











end
